theory Spec2Isabelle
  imports Main
begin

section \<open>Regular expressions as the fixer uses them\<close>

text \<open>
  The comment fixer (\<^verbatim>\<open>src/ts-comment-fixer.py\<close>, and its simpler sibling
  \<^verbatim>\<open>src/fix_ts_comments.py\<close>) rewrites a text with \<^verbatim>\<open>re.compile(p, re.MULTILINE)\<close>,
  \<^verbatim>\<open>findall\<close> and \<^verbatim>\<open>sub\<close>.  Every pattern of the two scripts is a
  sequence of single characters, character classes, greedy repetitions of one character
  class, the anchors \<^verbatim>\<open>^\<close> and \<^verbatim>\<open>$\<close>, one negative lookahead of a
  single character, and unnested capture groups.  The embedding below covers exactly this
  fragment, with the backtracking order of Python's engine: a greedy repetition first takes
  as many characters as it can and gives them back one at a time.

  A text is a \<^typ>\<open>string\<close>; one \<^typ>\<open>char\<close> stands for one code point below 256.
\<close>

definition NL :: char where
  "NL = CHR 0x0A"

text \<open>\<^verbatim>\<open>\s\<close> on a \<^verbatim>\<open>str\<close> pattern: the code points below 256 for which
  \<^verbatim>\<open>str.isspace\<close> holds (TAB, LF, VT, FF, CR, FS, GS, RS, US, space, NEL, NBSP).\<close>

definition is_space :: "char \<Rightarrow> bool" where
  "is_space c = (let n = (of_char c :: nat) in
     (9 \<le> n \<and> n \<le> 13) \<or> (28 \<le> n \<and> n \<le> 32) \<or> n = 133 \<or> n = 160)"

datatype atom =
    Lit char                    \<comment> \<open>an escaped or plain character\<close>
  | Dot                         \<comment> \<open>\<^verbatim>\<open>.\<close>: anything but a newline\<close>
  | Ws                          \<comment> \<open>\<^verbatim>\<open>\s\<close>\<close>
  | OneOf "(char \<times> char) list"  \<comment> \<open>\<^verbatim>\<open>[...]\<close>: inclusive ranges, \<open>(c, c)\<close> for one character\<close>

fun in_range :: "char \<Rightarrow> char \<times> char \<Rightarrow> bool" where
  "in_range c (lo, hi) = ((of_char lo :: nat) \<le> of_char c \<and> (of_char c :: nat) \<le> of_char hi)"

fun accepts :: "atom \<Rightarrow> char \<Rightarrow> bool" where
  "accepts (Lit a) c = (c = a)"
| "accepts Dot c = (c \<noteq> NL)"
| "accepts Ws c = is_space c"
| "accepts (OneOf rs) c = list_ex (in_range c) rs"

datatype item =
    One atom          \<comment> \<open>exactly one character\<close>
  | Many nat atom     \<comment> \<open>greedy repetition, at least that many: \<^verbatim>\<open>*\<close> is 0, \<^verbatim>\<open>+\<close> is 1, \<^verbatim>\<open>{5,}\<close> is 5\<close>
  | Bol               \<comment> \<open>\<^verbatim>\<open>^\<close> under \<^verbatim>\<open>re.MULTILINE\<close>\<close>
  | Eol               \<comment> \<open>\<^verbatim>\<open>$\<close> under \<^verbatim>\<open>re.MULTILINE\<close>\<close>
  | NotBefore atom    \<comment> \<open>\<^verbatim>\<open>(?!a)\<close>\<close>
  | Open              \<comment> \<open>\<^verbatim>\<open>(\<close>\<close>
  | Close             \<comment> \<open>\<^verbatim>\<open>)\<close>\<close>

type_synonym regex = "item list"

text \<open>
  \<open>mt pat prev s n ms\<close> tries to match \<open>pat\<close> at the current position: \<open>prev\<close> is the
  character before it (\<open>None\<close> at the start of the text), \<open>s\<close> the text from it on,
  \<open>n\<close> the number of characters the match has consumed so far and \<open>ms\<close> the group
  boundaries seen so far, latest first.  The result is the length of the match and its
  group boundaries in pattern order.
\<close>

fun mt :: "regex \<Rightarrow> char option \<Rightarrow> string \<Rightarrow> nat \<Rightarrow> nat list \<Rightarrow> (nat \<times> nat list) option" where
  "mt [] p s n ms = Some (n, rev ms)"
| "mt (One a # r) p [] n ms = None"
| "mt (One a # r) p (c # s) n ms =
     (if accepts a c then mt r (Some c) s (Suc n) ms else None)"
| "mt (Many k a # r) p [] n ms = (if k = 0 then mt r p [] n ms else None)"
| "mt (Many k a # r) p (c # s) n ms =
     (if accepts a c
      then (case mt (Many (k - 1) a # r) (Some c) s (Suc n) ms of
              Some m \<Rightarrow> Some m
            | None \<Rightarrow> if k = 0 then mt r p (c # s) n ms else None)
      else if k = 0 then mt r p (c # s) n ms else None)"
| "mt (Bol # r) p s n ms =
     (if p = None \<or> p = Some NL then mt r p s n ms else None)"
| "mt (Eol # r) p [] n ms = mt r p [] n ms"
| "mt (Eol # r) p (c # s) n ms = (if c = NL then mt r p (c # s) n ms else None)"
| "mt (NotBefore a # r) p [] n ms = mt r p [] n ms"
| "mt (NotBefore a # r) p (c # s) n ms =
     (if accepts a c then None else mt r p (c # s) n ms)"
| "mt (Open # r) p s n ms = mt r p s n (n # ms)"
| "mt (Close # r) p s n ms = mt r p s n (n # ms)"

text \<open>The captured groups of a match, from its boundaries \<open>[open 1, close 1, open 2, ...]\<close>.\<close>

fun groups :: "nat list \<Rightarrow> string \<Rightarrow> string list" where
  "groups (i # j # ms) s = take (j - i) (drop i s) # groups ms s"
| "groups ms s = []"

text \<open>
  Scanning a text from left to right for non-overlapping matches, as \<^verbatim>\<open>findall\<close>
  and \<^verbatim>\<open>sub\<close> both do: where the pattern matches, the match is taken and the scan
  goes on behind it; elsewhere one character is passed over.  An empty match is taken and
  the scan then passes over one character (in this fragment, with greedy repetition only,
  the first match at a position is empty only if no other match exists there).
\<close>

datatype piece = Keep char | Hit "string list"

function scan :: "regex \<Rightarrow> char option \<Rightarrow> string \<Rightarrow> piece list" where
  "scan pat p [] = (case mt pat p [] 0 [] of None \<Rightarrow> [] | Some (n, ms) \<Rightarrow> [Hit (groups ms [])])"
| "scan pat p (c # s) =
     (case mt pat p (c # s) 0 [] of
        None \<Rightarrow> Keep c # scan pat (Some c) s
      | Some (n, ms) \<Rightarrow>
          if n = 0 then Hit (groups ms (c # s)) # Keep c # scan pat (Some c) s
          else Hit (groups ms (c # s)) # scan pat (Some ((c # s) ! (n - 1))) (drop n (c # s)))"
  by pat_completeness auto
termination
  by (relation "measure (\<lambda>(pat, p, s). length s)") auto

text \<open>\<^verbatim>\<open>pattern.findall(text)\<close>: one entry per match (its groups).\<close>

fun hits :: "piece list \<Rightarrow> string list list" where
  "hits [] = []"
| "hits (Keep c # ps) = hits ps"
| "hits (Hit gs # ps) = gs # hits ps"

definition findall :: "regex \<Rightarrow> string \<Rightarrow> string list list" where
  "findall pat s = hits (scan pat None s)"

text \<open>A replacement template: literal text and group references \<^verbatim>\<open>\1\<close>, \<^verbatim>\<open>\2\<close>, ...
  (every template of the scripts refers to groups its pattern has).\<close>

datatype tpart = Txt string | Ref nat

fun expand :: "tpart list \<Rightarrow> string list \<Rightarrow> string" where
  "expand [] gs = []"
| "expand (Txt t # r) gs = t @ expand r gs"
| "expand (Ref k # r) gs = gs ! (k - 1) @ expand r gs"

fun render :: "tpart list \<Rightarrow> piece list \<Rightarrow> string" where
  "render tm [] = []"
| "render tm (Keep c # ps) = c # render tm ps"
| "render tm (Hit gs # ps) = expand tm gs @ render tm ps"

text \<open>\<^verbatim>\<open>pattern.sub(template, text)\<close>.\<close>

definition sub :: "regex \<Rightarrow> tpart list \<Rightarrow> string \<Rightarrow> string" where
  "sub pat tm s = render tm (scan pat None s)"


section \<open>The pattern catalogue of \<^verbatim>\<open>ts-comment-fixer.py\<close>\<close>

definition upper :: "char \<times> char" where "upper = (CHR ''A'', CHR ''Z'')"
definition lower :: "char \<times> char" where "lower = (CHR ''a'', CHR ''z'')"
definition digit :: "char \<times> char" where "digit = (CHR ''0'', CHR ''9'')"

text \<open>\<^verbatim>\<open>[A-Z0-9 _-]\<close>\<close>

definition title_char :: atom where
  "title_char = OneOf [upper, digit, (CHR '' '', CHR '' ''), (CHR ''_'', CHR ''_''), (CHR ''-'', CHR ''-'')]"

text \<open>\<^verbatim>\<open>^\/(?!\/)(.*)$\<close> with \<^verbatim>\<open>//\1\<close> (patterns 1 and 1a are the same expression).\<close>

definition pattern1 :: regex where
  "pattern1 = [Bol, One (Lit CHR ''/''), NotBefore (Lit CHR ''/''), Open, Many 0 Dot, Close, Eol]"

definition pattern1a :: regex where
  "pattern1a = [Bol, One (Lit CHR ''/''), NotBefore (Lit CHR ''/''), Open, Many 0 Dot, Close, Eol]"

definition template1 :: "tpart list" where
  "template1 = [Txt ''//'', Ref 1]"

text \<open>\<^verbatim>\<open>(\/\/\s*=+)\s*\n([A-Z][A-Z0-9 _-]+)\s*\n(\/\/\s*=+)\<close> with \<^verbatim>\<open>\1\n// \2\n\3\<close>.\<close>

definition pattern2 :: regex where
  "pattern2 =
     [Open, One (Lit CHR ''/''), One (Lit CHR ''/''), Many 0 Ws, Many 1 (Lit CHR ''=''), Close,
      Many 0 Ws, One (Lit NL),
      Open, One (OneOf [upper]), Many 1 title_char, Close,
      Many 0 Ws, One (Lit NL),
      Open, One (Lit CHR ''/''), One (Lit CHR ''/''), Many 0 Ws, Many 1 (Lit CHR ''=''), Close]"

definition template2 :: "tpart list" where
  "template2 = [Ref 1, Txt [NL], Txt ''// '', Ref 2, Txt [NL], Ref 3]"

text \<open>\<^verbatim>\<open>(\s+)\/(\s+[A-Za-z])\<close> with \<^verbatim>\<open>\1//\2\<close>.\<close>

definition pattern3 :: regex where
  "pattern3 =
     [Open, Many 1 Ws, Close, One (Lit CHR ''/''),
      Open, Many 1 Ws, One (OneOf [upper, lower]), Close]"

definition template3 :: "tpart list" where
  "template3 = [Ref 1, Txt ''//'', Ref 2]"

text \<open>\<^verbatim>\<open>^([A-Z][A-Z0-9 _-]{5,})$\<close> with \<^verbatim>\<open>// \1\<close>.\<close>

definition pattern4 :: regex where
  "pattern4 = [Bol, Open, One (OneOf [upper]), Many 5 title_char, Close, Eol]"

definition template4 :: "tpart list" where
  "template4 = [Txt ''// '', Ref 1]"

text \<open>\<^verbatim>\<open>^(=+)$\<close> with \<^verbatim>\<open>// \1\<close>.\<close>

definition pattern5 :: regex where
  "pattern5 = [Bol, Open, Many 1 (Lit CHR ''=''), Close, Eol]"

definition template5 :: "tpart list" where
  "template5 = [Txt ''// '', Ref 1]"

text \<open>\<^verbatim>\<open>^\/(\s*=+)\<close> with \<^verbatim>\<open>//\1\<close>.\<close>

definition pattern6 :: regex where
  "pattern6 = [Bol, One (Lit CHR ''/''), Open, Many 0 Ws, Many 1 (Lit CHR ''=''), Close]"

definition template6 :: "tpart list" where
  "template6 = [Txt ''//'', Ref 1]"

section \<open>The tally\<close>

text \<open>
  \<^verbatim>\<open>fix_counts\<close> is a \<^verbatim>\<open>dict\<close> from category names to integers; a dict keeps its
  keys in insertion order, so it is an association list.  The three operations are the
  ones \<^verbatim>\<open>fix_file\<close> performs, all on keys the dict has.
\<close>

type_synonym counts = "(string \<times> int) list"

definition fix_counts_init :: counts where
  "fix_counts_init =
     [(''section_headers'', 0), (''section_titles'', 0), (''object_comments'', 0),
      (''naked_headers'', 0), (''section_dividers'', 0), (''multiline_sections'', 0),
      (''mixed_slash_headers'', 0), (''standalone_slashes'', 0), (''total'', 0)]"

text \<open>\<^verbatim>\<open>d[k]\<close>\<close>

fun item_of :: "counts \<Rightarrow> string \<Rightarrow> int" where
  "item_of [] k = 0"
| "item_of ((k', v) # d) k = (if k' = k then v else item_of d k)"

text \<open>\<^verbatim>\<open>d[k] += n\<close>\<close>

fun add_item :: "string \<Rightarrow> int \<Rightarrow> counts \<Rightarrow> counts" where
  "add_item k n [] = []"
| "add_item k n ((k', v) # d) = (if k' = k then (k', v + n) # d else (k', v) # add_item k n d)"

text \<open>\<^verbatim>\<open>d[k] = n\<close>\<close>

fun set_item :: "string \<Rightarrow> int \<Rightarrow> counts \<Rightarrow> counts" where
  "set_item k n [] = []"
| "set_item k n ((k', v) # d) = (if k' = k then (k', n) # d else (k', v) # set_item k n d)"

text \<open>\<^verbatim>\<open>sum(v for k, v in fix_counts.items() if k != "total")\<close>\<close>

fun sum_but_total :: "counts \<Rightarrow> int" where
  "sum_but_total [] = 0"
| "sum_but_total ((k, v) # d) = (if k \<noteq> ''total'' then v + sum_but_total d else sum_but_total d)"

text \<open>\<^verbatim>\<open>{k: 0 for k in fix_counts}\<close>\<close>

fun zeroed :: "counts \<Rightarrow> counts" where
  "zeroed [] = []"
| "zeroed ((k, v) # d) = (k, 0) # zeroed d"

section \<open>The rewrite pipeline of \<^verbatim>\<open>CommentFixer.fix_file\<close>\<close>

text \<open>
  One rule application, as each of the nine blocks of \<^verbatim>\<open>fix_file\<close> does it:
  count the matches in the current text, substitute, add the count to the rule's category.
\<close>

fun apply_rule :: "regex \<Rightarrow> tpart list \<Rightarrow> string \<Rightarrow> string \<times> counts \<Rightarrow> string \<times> counts" where
  "apply_rule pat tm key (content, fc) =
     (let match_count = int (length (findall pat content));
          content' = sub pat tm content
      in (content', add_item key match_count fc))"

text \<open>\<^verbatim>\<open>for i in range(3)\<close>: pattern 6, three times, whatever it finds.\<close>

fun pattern6_loop :: "nat \<Rightarrow> string \<times> counts \<Rightarrow> string \<times> counts" where
  "pattern6_loop 0 st = st"
| "pattern6_loop (Suc i) st = pattern6_loop i (apply_rule pattern6 template6 ''section_headers'' st)"

text \<open>Lines 46 to 107: from the text read to the final text and its tally.\<close>

definition fix_text :: "string \<Rightarrow> string \<times> counts" where
  "fix_text original_content =
     (let st = (original_content, fix_counts_init);
          st = apply_rule pattern1 template1 ''standalone_slashes'' st;
          st = apply_rule pattern1a template1 ''standalone_slashes'' st;
          st = apply_rule pattern2 template2 ''multiline_sections'' st;
          st = apply_rule pattern3 template3 ''object_comments'' st;
          st = apply_rule pattern4 template4 ''naked_headers'' st;
          st = apply_rule pattern5 template5 ''section_dividers'' st;
          (content, fix_counts) = pattern6_loop 3 st
      in (content, set_item ''total'' (sum_but_total fix_counts) fix_counts))"


section \<open>Files\<close>

text \<open>
  The scripts touch the file system through \<^verbatim>\<open>open(path, 'r').read()\<close> and
  \<^verbatim>\<open>open(path, 'w').write(text)\<close> only.  A world gives the text of every file that can
  be read (a path without one makes \<^verbatim>\<open>open\<close> or \<^verbatim>\<open>read\<close> raise) and says, for
  each path, how a write to it goes: it succeeds; or \<^verbatim>\<open>open(path, 'w')\<close> raises, before
  anything is touched; or \<^verbatim>\<open>open\<close> succeeds, which truncates the file, and
  \<^verbatim>\<open>write\<close> raises after some leading part of the text has reached the file.
  The content of a file is the text that \<^verbatim>\<open>read\<close> returns for it.
\<close>

datatype exn = IOError string | UnboundLocalError string

fun str :: "exn \<Rightarrow> string" where
  "str (IOError m) = m"
| "str (UnboundLocalError m) = m"

datatype wfault = NoFault | OpenFails | WriteFails nat

record world =
  files :: "string \<rightharpoonup> string"
  fault :: "string \<Rightarrow> wfault"

definition read_text :: "world \<Rightarrow> string \<Rightarrow> exn + string" where
  "read_text w path = (case files w path of None \<Rightarrow> Inl (IOError path) | Some text \<Rightarrow> Inr text)"

definition write_text :: "world \<Rightarrow> string \<Rightarrow> string \<Rightarrow> exn option \<times> world" where
  "write_text w path text =
     (case fault w path of
        NoFault \<Rightarrow> (None, w\<lparr>files := (files w)(path \<mapsto> text)\<rparr>)
      | OpenFails \<Rightarrow> (Some (IOError path), w)
      | WriteFails n \<Rightarrow> (Some (IOError path), w\<lparr>files := (files w)(path \<mapsto> take n text)\<rparr>))"

section \<open>\<^verbatim>\<open>CommentFixer\<close>\<close>

record fixer =
  dry_run :: bool
  verbose :: bool
  fixed_files :: "string \<rightharpoonup> counts"
  error_files :: "string \<rightharpoonup> string"
  skipped_files :: "string set"

text \<open>\<^verbatim>\<open>CommentFixer(dry_run, verbose)\<close>\<close>

definition CommentFixer :: "bool \<Rightarrow> bool \<Rightarrow> fixer" where
  "CommentFixer d v =
     \<lparr>dry_run = d, verbose = v, fixed_files = Map.empty, error_files = Map.empty,
      skipped_files = {}\<rparr>"

text \<open>
  \<^verbatim>\<open>fix_file\<close> (lines 40 to 122).  The result is what the call returns, or the exception
  that leaves it, with the fixer and the world as the call leaves them; what it prints is
  left out.  The whole body is inside \<^verbatim>\<open>try\<close>.  The handler records the message and
  then builds its result from \<^verbatim>\<open>fix_counts\<close>: that local name is bound at line 47,
  after the read, so when the read itself raised the handler's last line raises
  \<^verbatim>\<open>UnboundLocalError\<close>.
\<close>

definition fix_file :: "fixer \<Rightarrow> string \<Rightarrow> world \<Rightarrow> (exn + string \<times> bool \<times> counts) \<times> fixer \<times> world" where
  "fix_file self file_path w =
     (case read_text w file_path of
        Inl e \<Rightarrow>
          (Inl (UnboundLocalError ''fix_counts''),
           self\<lparr>error_files := (error_files self)(file_path \<mapsto> str e)\<rparr>, w)
      | Inr original_content \<Rightarrow>
          (let (content, fix_counts) = fix_text original_content in
           if content \<noteq> original_content \<and> \<not> dry_run self then
             (case write_text w file_path content of
                (None, w') \<Rightarrow> (Inr (file_path, True, fix_counts), self, w')
              | (Some e, w') \<Rightarrow>
                  (Inr (file_path, False, zeroed fix_counts),
                   self\<lparr>error_files := (error_files self)(file_path \<mapsto> str e)\<rparr>, w'))
           else if content \<noteq> original_content then (Inr (file_path, False, fix_counts), self, w)
           else (Inr (file_path, False, zeroed fix_counts), self, w)))"

text \<open>
  \<^verbatim>\<open>process_directory\<close> from line 142 on; the list of files comes from \<^verbatim>\<open>os.walk\<close>.
  Each task runs \<^verbatim>\<open>fix_file\<close> in a worker process, on a copy of the fixer; the tasks
  are taken here in the order in which they complete.  \<^verbatim>\<open>future.result()\<close> raises again
  the exception that left the task.
\<close>

fun run_tasks :: "fixer \<Rightarrow> string list \<Rightarrow> world \<Rightarrow> (exn + string \<times> bool \<times> counts) list \<times> world" where
  "run_tasks self [] w = ([], w)"
| "run_tasks self (file_path # rest) w =
     (case fix_file self file_path w of
        (r, self', w') \<Rightarrow> (case run_tasks self rest w' of (rs, w'') \<Rightarrow> (r # rs, w'')))"

fun collect_results :: "(exn + string \<times> bool \<times> counts) list \<Rightarrow> fixer \<Rightarrow> exn + fixer" where
  "collect_results [] self = Inr self"
| "collect_results (Inl e # rs) self = Inl e"
| "collect_results (Inr (file_path, was_fixed, fix_counts) # rs) self =
     (if was_fixed
      then collect_results rs (self\<lparr>fixed_files := (fixed_files self)(file_path \<mapsto> fix_counts)\<rparr>)
      else if item_of fix_counts ''total'' > 0
      then collect_results rs (self\<lparr>skipped_files := insert file_path (skipped_files self)\<rparr>)
      else collect_results rs self)"

definition process_directory :: "fixer \<Rightarrow> string list \<Rightarrow> world \<Rightarrow> (exn + fixer) \<times> world" where
  "process_directory self ts_files w =
     (case run_tasks self ts_files w of (rs, w') \<Rightarrow> (collect_results rs self, w'))"

section \<open>Force mode\<close>

text \<open>\<^verbatim>\<open>content.split('\n')\<close> and \<^verbatim>\<open>'\n'.join(lines)\<close>\<close>

fun split_nl :: "string \<Rightarrow> string list" where
  "split_nl [] = [[]]"
| "split_nl (c # s) =
     (if c = NL then [] # split_nl s else (c # hd (split_nl s)) # tl (split_nl s))"

fun join_nl :: "string list \<Rightarrow> string" where
  "join_nl [] = []"
| "join_nl [l] = l"
| "join_nl (l # ls) = l @ NL # join_nl ls"

text \<open>\<^verbatim>\<open>line.startswith(p)\<close>\<close>

definition startswith :: "string \<Rightarrow> string \<Rightarrow> bool" where
  "startswith p line = (take (length p) line = p)"

text \<open>
  Lines 280 to 285: the loop over \<^verbatim>\<open>enumerate(lines)\<close>.  It assigns to
  \<^verbatim>\<open>lines[i]\<close> only while it is at index \<open>i\<close>, so every line it reads is still the
  original one.
\<close>

fun force_step :: "string list \<times> int \<Rightarrow> nat \<times> string \<Rightarrow> string list \<times> int" where
  "force_step (lines, direct_fixes) (i, line) =
     (if startswith ''/'' line \<and> \<not> startswith ''//'' line
      then (lines[i := CHR ''/'' # line], direct_fixes + 1)
      else (lines, direct_fixes))"

definition force_fix :: "string list \<Rightarrow> string list \<times> int" where
  "force_fix lines = foldl force_step (lines, 0) (enumerate 0 lines)"

text \<open>
  The single-file branch of \<^verbatim>\<open>main\<close> (lines 257 to 299), without what it prints but for
  the outcome of the force block.  An exception that leaves \<^verbatim>\<open>fix_file\<close> leaves
  \<^verbatim>\<open>main\<close>; the force block catches its own.
\<close>

datatype forced = NotForced | NoDirectFixes | Applied int | WouldApply int | ForceError exn

definition main_fix_file :: "bool \<Rightarrow> bool \<Rightarrow> bool \<Rightarrow> string \<Rightarrow> world \<Rightarrow> (exn + forced) \<times> world" where
  "main_fix_file args_dry_run args_verbose args_force args_fix_file w =
     (case fix_file (CommentFixer args_dry_run args_verbose) args_fix_file w of
        (Inl e, fixer, w') \<Rightarrow> (Inl e, w')
      | (Inr (file_path, was_fixed, fix_counts), fixer, w') \<Rightarrow>
          if args_force \<and> \<not> was_fixed then
            (case read_text w' file_path of
               Inl e \<Rightarrow> (Inr (ForceError e), w')
             | Inr content \<Rightarrow>
                 (case force_fix (split_nl content) of
                    (lines, direct_fixes) \<Rightarrow>
                      if direct_fixes > 0 then
                        (if \<not> args_dry_run then
                           (case write_text w' file_path (join_nl lines) of
                              (None, w'') \<Rightarrow> (Inr (Applied direct_fixes), w'')
                            | (Some e, w'') \<Rightarrow> (Inr (ForceError e), w''))
                         else (Inr (WouldApply direct_fixes), w'))
                      else (Inr NoDirectFixes, w')))
          else (Inr NotForced, w'))"

section \<open>The sibling script \<^verbatim>\<open>fix_ts_comments.py\<close>\<close>

text \<open>Its patterns 1, 3, 4, 5 and 6 are patterns 6, 2, 3, 4 and 5 above; its pattern 2 is
  \<^verbatim>\<open>^\/(\s+[A-Z][A-Z0-9 _-]+)\<close> with \<^verbatim>\<open>//\1\<close>.\<close>

definition section_name_pattern :: regex where
  "section_name_pattern =
     [Bol, One (Lit CHR ''/''), Open, Many 1 Ws, One (OneOf [upper]), Many 1 title_char, Close]"

definition fix_text_simple :: "string \<Rightarrow> string" where
  "fix_text_simple original_content =
     (let content = sub pattern6 template6 original_content;
          content = sub section_name_pattern template6 content;
          content = sub pattern2 template2 content;
          content = sub pattern3 template3 content;
          content = sub pattern4 template4 content;
          content = sub pattern5 template5 content
      in content)"

definition fix_file_simple :: "string \<Rightarrow> world \<Rightarrow> (string \<times> bool) \<times> world" where
  "fix_file_simple file_path w =
     (case read_text w file_path of
        Inl e \<Rightarrow> ((file_path, False), w)
      | Inr original_content \<Rightarrow>
          (let content = fix_text_simple original_content in
           if content \<noteq> original_content then
             (case write_text w file_path content of
                (None, w') \<Rightarrow> ((file_path, True), w')
              | (Some e, w') \<Rightarrow> ((file_path, False), w'))
           else ((file_path, False), w)))"

section \<open>The convergence driver as the specification words it\<close>

text \<open>
  For comparison with \<^const>\<open>fix_text\<close>: the driver of the specification, which runs a
  whole pass again and again until a pass makes no substitution or the cap is reached, and
  adds up the tallies of its passes.  The pass is the whole catalogue of the script.
\<close>

fun merge :: "counts \<Rightarrow> counts \<Rightarrow> counts" where
  "merge [] t = []"
| "merge ((k, v) # d) t = (k, v + item_of t k) # merge d t"

fun Normalize_spec :: "nat \<Rightarrow> string \<Rightarrow> string \<times> counts" where
  "Normalize_spec 0 text = (text, fix_counts_init)"
| "Normalize_spec (Suc cap) text =
     (case fix_text text of
        (text1, tally1) \<Rightarrow>
          if item_of tally1 ''total'' = 0 then (text1, tally1)
          else (case Normalize_spec cap text1 of (text2, tally2) \<Rightarrow> (text2, merge tally1 tally2)))"


section \<open>Properties of tallies\<close>

text \<open>The nine keys of a tally, in the order in which \<^verbatim>\<open>fix_file\<close> writes them.\<close>

definition nine_keys :: "string list" where
  "nine_keys =
     [''section_headers'', ''section_titles'', ''object_comments'', ''naked_headers'',
      ''section_dividers'', ''multiline_sections'', ''mixed_slash_headers'',
      ''standalone_slashes'', ''total'']"

definition tally_ok :: "counts \<Rightarrow> bool" where
  "tally_ok t =
     (map fst t = nine_keys \<and> list_all (\<lambda>v. 0 \<le> v) (map snd t) \<and>
      item_of t ''total'' =
        item_of t ''section_headers'' + item_of t ''section_titles'' +
        item_of t ''object_comments'' + item_of t ''naked_headers'' +
        item_of t ''section_dividers'' + item_of t ''multiline_sections'' +
        item_of t ''mixed_slash_headers'' + item_of t ''standalone_slashes'')"

text \<open>\<^verbatim>\<open>len(pattern.findall(text))\<close>\<close>

definition count :: "regex \<Rightarrow> string \<Rightarrow> int" where
  "count pat s = int (length (findall pat s))"

text \<open>A line that force mode changes.\<close>

definition single_slash :: "string \<Rightarrow> bool" where
  "single_slash line = (startswith ''/'' line \<and> \<not> startswith ''//'' line)"

section \<open>The pipeline, unfolded\<close>

lemma count_nonneg: "0 \<le> count pat s"
  by (simp add: count_def)

lemma fix_text_unfolded:
  "fix_text T =
     (let T1 = sub pattern1 template1 T;
          T2 = sub pattern1a template1 T1;
          T3 = sub pattern2 template2 T2;
          T4 = sub pattern3 template3 T3;
          T5 = sub pattern4 template4 T4;
          T6 = sub pattern5 template5 T5;
          T7 = sub pattern6 template6 T6;
          T8 = sub pattern6 template6 T7;
          T9 = sub pattern6 template6 T8
      in (T9,
          [(''section_headers'', count pattern6 T6 + count pattern6 T7 + count pattern6 T8),
           (''section_titles'', 0),
           (''object_comments'', count pattern3 T3),
           (''naked_headers'', count pattern4 T4),
           (''section_dividers'', count pattern5 T5),
           (''multiline_sections'', count pattern2 T2),
           (''mixed_slash_headers'', 0),
           (''standalone_slashes'', count pattern1 T + count pattern1a T1),
           (''total'',
            count pattern1 T + count pattern1a T1 + count pattern2 T2 + count pattern3 T3 +
            count pattern4 T4 + count pattern5 T5 +
            count pattern6 T6 + count pattern6 T7 + count pattern6 T8)]))"
  by (simp add: fix_text_def fix_counts_init_def numeral_3_eq_3 Let_def count_def
      split: prod.splits)

lemma fix_text_tally:
  "\<exists>a b c d e f. 0 \<le> a \<and> 0 \<le> b \<and> 0 \<le> c \<and> 0 \<le> d \<and> 0 \<le> e \<and> 0 \<le> f \<and>
     snd (fix_text T) =
       [(''section_headers'', a), (''section_titles'', 0), (''object_comments'', b),
        (''naked_headers'', c), (''section_dividers'', d), (''multiline_sections'', e),
        (''mixed_slash_headers'', 0), (''standalone_slashes'', f),
        (''total'', a + b + c + d + e + f)]"
  by (simp add: fix_text_def fix_counts_init_def numeral_3_eq_3 Let_def split: prod.splits)

lemma tally_ok_fix_text: "tally_ok (snd (fix_text T))"
proof -
  obtain a b c d e f where "0 \<le> a" "0 \<le> b" "0 \<le> c" "0 \<le> d" "0 \<le> e" "0 \<le> f" and
    "snd (fix_text T) =
       [(''section_headers'', a), (''section_titles'', 0), (''object_comments'', b),
        (''naked_headers'', c), (''section_dividers'', d), (''multiline_sections'', e),
        (''mixed_slash_headers'', 0), (''standalone_slashes'', f),
        (''total'', a + b + c + d + e + f)]"
    using fix_text_tally [of T] by blast
  then show ?thesis by (simp add: tally_ok_def nine_keys_def)
qed

lemma tally_ok_zeroed: "tally_ok (zeroed (snd (fix_text T)))"
proof -
  obtain a b c d e f where
    "snd (fix_text T) =
       [(''section_headers'', a), (''section_titles'', 0), (''object_comments'', b),
        (''naked_headers'', c), (''section_dividers'', d), (''multiline_sections'', e),
        (''mixed_slash_headers'', 0), (''standalone_slashes'', f),
        (''total'', a + b + c + d + e + f)]"
    using fix_text_tally [of T] by blast
  then show ?thesis by (simp add: tally_ok_def nine_keys_def)
qed

section \<open>A rule that finds nothing changes nothing\<close>

lemma scan_no_hit: "hits (scan pat p s) = [] \<Longrightarrow> render tm (scan pat p s) = s"
  by (induction pat p s rule: scan.induct) (auto split: option.splits prod.splits if_splits)

lemma sub_no_match: "findall pat s = [] \<Longrightarrow> sub pat tm s = s"
  by (simp add: findall_def sub_def scan_no_hit)

lemma count_zero: "count pat s = 0 \<Longrightarrow> sub pat tm s = s"
  by (simp add: count_def sub_no_match)

lemma fix_text_no_substitution:
  assumes "item_of (snd (fix_text T)) ''total'' = 0"
  shows "fix_text T = (T, fix_counts_init)"
proof -
  define T1 where "T1 = sub pattern1 template1 T"
  define T2 where "T2 = sub pattern1a template1 T1"
  define T3 where "T3 = sub pattern2 template2 T2"
  define T4 where "T4 = sub pattern3 template3 T3"
  define T5 where "T5 = sub pattern4 template4 T4"
  define T6 where "T6 = sub pattern5 template5 T5"
  define T7 where "T7 = sub pattern6 template6 T6"
  define T8 where "T8 = sub pattern6 template6 T7"
  note defs = T1_def T2_def T3_def T4_def T5_def T6_def T7_def T8_def
  have "count pattern1 T + count pattern1a T1 + count pattern2 T2 + count pattern3 T3 +
        count pattern4 T4 + count pattern5 T5 +
        count pattern6 T6 + count pattern6 T7 + count pattern6 T8 = 0"
    using assms by (simp add: fix_text_unfolded Let_def defs)
  then have z: "count pattern1 T = 0" "count pattern1a T1 = 0" "count pattern2 T2 = 0"
      "count pattern3 T3 = 0" "count pattern4 T4 = 0" "count pattern5 T5 = 0"
      "count pattern6 T6 = 0" "count pattern6 T7 = 0" "count pattern6 T8 = 0"
    using count_nonneg [of pattern1 T] count_nonneg [of pattern1a T1]
      count_nonneg [of pattern2 T2] count_nonneg [of pattern3 T3]
      count_nonneg [of pattern4 T4] count_nonneg [of pattern5 T5]
      count_nonneg [of pattern6 T6] count_nonneg [of pattern6 T7]
      count_nonneg [of pattern6 T8]
    by linarith+
  have e1: "T1 = T" using z(1) by (simp add: T1_def count_zero)
  have e2: "T2 = T" using z(2) e1 by (simp add: T2_def count_zero)
  have e3: "T3 = T" using z(3) e2 by (simp add: T3_def count_zero)
  have e4: "T4 = T" using z(4) e3 by (simp add: T4_def count_zero)
  have e5: "T5 = T" using z(5) e4 by (simp add: T5_def count_zero)
  have e6: "T6 = T" using z(6) e5 by (simp add: T6_def count_zero)
  have e7: "T7 = T" using z(7) e6 by (simp add: T7_def count_zero)
  have e8: "T8 = T" using z(8) e7 by (simp add: T8_def count_zero)
  have e9: "sub pattern6 template6 T8 = T" using z(9) e8 by (simp add: count_zero)
  have "fix_text T =
         (sub pattern6 template6 T8,
          [(''section_headers'', count pattern6 T6 + count pattern6 T7 + count pattern6 T8),
           (''section_titles'', 0),
           (''object_comments'', count pattern3 T3),
           (''naked_headers'', count pattern4 T4),
           (''section_dividers'', count pattern5 T5),
           (''multiline_sections'', count pattern2 T2),
           (''mixed_slash_headers'', 0),
           (''standalone_slashes'', count pattern1 T + count pattern1a T1),
           (''total'',
            count pattern1 T + count pattern1a T1 + count pattern2 T2 + count pattern3 T3 +
            count pattern4 T4 + count pattern5 T5 +
            count pattern6 T6 + count pattern6 T7 + count pattern6 T8)])"
    by (simp add: fix_text_unfolded Let_def defs)
  then show ?thesis by (simp add: z e9 fix_counts_init_def)
qed

section \<open>Splitting and joining lines\<close>

lemma force_step_single:
  "force_step (ls, k) (i, l) =
     (if single_slash l then (ls[i := CHR ''/'' # l], k + 1) else (ls, k))"
  by (simp add: single_slash_def)

lemma force_loop_gen:
  "foldl force_step (pre @ xs, k) (enumerate (length pre) xs) =
     (pre @ map (\<lambda>l. if single_slash l then CHR ''/'' # l else l) xs,
      k + int (length (filter single_slash xs)))"
proof (induction xs arbitrary: pre k)
  case Nil
  then show ?case by simp
next
  case (Cons x xs)
  have "foldl force_step ((pre @ [y]) @ xs, k') (enumerate (length (pre @ [y])) xs) =
     ((pre @ [y]) @ map (\<lambda>l. if single_slash l then CHR ''/'' # l else l) xs,
      k' + int (length (filter single_slash xs)))" for y k'
    by (rule Cons.IH)
  then show ?case by (simp add: force_step_single del: force_step.simps)
qed

lemma force_fix_map:
  "force_fix lines =
     (map (\<lambda>l. if single_slash l then CHR ''/'' # l else l) lines,
      int (length (filter single_slash lines)))"
  using force_loop_gen [of "[]" lines 0] by (simp add: force_fix_def)

lemma split_nl_nonempty: "split_nl s \<noteq> []"
  by (induction s) auto

lemma split_nl_no_NL: "l \<in> set (split_nl s) \<Longrightarrow> NL \<notin> set l"
proof (induction s arbitrary: l)
  case Nil
  then show ?case by simp
next
  case (Cons c s)
  show ?case
  proof (cases "c = NL")
    case True
    then show ?thesis using Cons by auto
  next
    case False
    obtain h t where "split_nl s = h # t"
      using split_nl_nonempty [of s] by (cases "split_nl s") auto
    then show ?thesis using Cons False by auto
  qed
qed

lemma split_nl_append: "NL \<notin> set l \<Longrightarrow> split_nl (l @ NL # s) = l # split_nl s"
  by (induction l) auto

lemma split_nl_line: "NL \<notin> set l \<Longrightarrow> split_nl l = [l]"
  by (induction l) auto

lemma split_join:
  "ls \<noteq> [] \<Longrightarrow> (\<And>l. l \<in> set ls \<Longrightarrow> NL \<notin> set l) \<Longrightarrow> split_nl (join_nl ls) = ls"
proof (induction ls rule: join_nl.induct)
  case 1
  then show ?case by simp
next
  case (2 l)
  then show ?case by (simp add: split_nl_line)
next
  case (3 l v va)
  then show ?case by (simp add: split_nl_append)
qed

section \<open>The claims\<close>

text \<open>
  C1 (amended).  The pipeline of \<^verbatim>\<open>fix_file\<close> is idempotent at its fixed points: when a
  run on a text records no substitution at all, it returns that text unchanged, and running
  the pipeline on the result returns the same text with the all-zero tally.
\<close>

theorem fix_text_idempotent_at_fixed_point:
  assumes "item_of (snd (fix_text T)) ''total'' = 0"
  shows "fst (fix_text T) = T \<and>
         fix_text (fst (fix_text T)) = (fst (fix_text T), fix_counts_init)"
  using fix_text_no_substitution [OF assms] by simp

theorem fix_text_idempotent_at_fixed_point_witness:
  "item_of (snd (fix_text ''// ok\<newline>'')) ''total'' = 0 \<and>
   fst (fix_text ''// ok\<newline>'') = ''// ok\<newline>'' \<and>
   fix_text (fst (fix_text ''// ok\<newline>'')) = (fst (fix_text ''// ok\<newline>''), fix_counts_init)"
proof -
  have h: "item_of (snd (fix_text ''// ok\<newline>'')) ''total'' = 0"
    by code_simp
  show ?thesis
    using fix_text_idempotent_at_fixed_point [OF h] h by blast
qed

text \<open>
  C1 as stated fails: on two bare dividers around a short title the first run repairs the
  dividers only, and a second run on its output then repairs the title and counts one more
  substitution.
\<close>

theorem fix_text_not_idempotent:
  "fix_text (fst (fix_text ''===\<newline>AB\<newline>===\<newline>'')) \<noteq>
     (fst (fix_text ''===\<newline>AB\<newline>===\<newline>''), fix_counts_init)"
  by code_simp

text \<open>
  C2 fails on the code: when the read raises, the handler of \<^verbatim>\<open>fix_file\<close> refers to
  \<^verbatim>\<open>fix_counts\<close> before it was bound, so the call raises instead of returning
  \<open>(path, False, zero tally)\<close>.
\<close>

theorem fix_file_unreadable_raises:
  "fst (fix_file (CommentFixer False False) ''a.ts'' \<lparr>files = Map.empty, fault = (\<lambda>p. NoFault)\<rparr>)
     = Inl (UnboundLocalError ''fix_counts'')"
  by (simp add: fix_file_def read_text_def CommentFixer_def)

text \<open>The exception leaves \<^verbatim>\<open>process_directory\<close> too, whatever the other files are;
  the sibling script returns \<open>(path, False)\<close> for the same file.\<close>

lemma process_directory_aborts:
  "fst (process_directory (CommentFixer False False) [''a.ts'', ''b.ts'']
          \<lparr>files = [''b.ts'' \<mapsto> ''// ok\<newline>''], fault = (\<lambda>p. NoFault)\<rparr>)
     = Inl (UnboundLocalError ''fix_counts'')"
  by (simp add: process_directory_def fix_file_def read_text_def CommentFixer_def
      split: prod.splits)

lemma fix_file_simple_unreadable:
  "fst (fix_file_simple ''a.ts'' \<lparr>files = Map.empty, fault = (\<lambda>p. NoFault)\<rparr>) = (''a.ts'', False)"
  by (simp add: fix_file_simple_def read_text_def)

text \<open>
  C3 (amended).  In apply mode, when the normalized text differs from the original,
  \<^verbatim>\<open>fix_file\<close> writes the new text into the file itself, with no temporary file and no
  rename: when the write succeeds the file holds the normalized text and the call returns
  \<open>(path, True, tally)\<close>; when opening the file for writing fails the file is as it was;
  when the write fails after the file was opened, the file holds only the part of the new
  text written so far; in both failures the call returns \<open>(path, False, zero tally)\<close>.
\<close>

theorem fix_file_writes_in_place:
  assumes "files w file_path = Some original_content"
    and "fst (fix_text original_content) \<noteq> original_content"
    and "\<not> dry_run self"
  shows "files (snd (snd (fix_file self file_path w))) file_path =
           (case fault w file_path of
              NoFault \<Rightarrow> Some (fst (fix_text original_content))
            | OpenFails \<Rightarrow> Some original_content
            | WriteFails n \<Rightarrow> Some (take n (fst (fix_text original_content)))) \<and>
         fst (fix_file self file_path w) =
           (if fault w file_path = NoFault
            then Inr (file_path, True, snd (fix_text original_content))
            else Inr (file_path, False, zeroed (snd (fix_text original_content))))"
  using assms
  by (auto simp add: fix_file_def read_text_def write_text_def split: prod.splits wfault.splits)

theorem fix_file_writes_in_place_witness:
  "files \<lparr>files = [''a.ts'' \<mapsto> ''/ x\<newline>''], fault = (\<lambda>p. WriteFails 2)\<rparr> ''a.ts'' = Some ''/ x\<newline>'' \<and>
   fst (fix_text ''/ x\<newline>'') \<noteq> ''/ x\<newline>'' \<and>
   \<not> dry_run (CommentFixer False False) \<and>
   files (snd (snd (fix_file (CommentFixer False False) ''a.ts''
      \<lparr>files = [''a.ts'' \<mapsto> ''/ x\<newline>''], fault = (\<lambda>p. WriteFails 2)\<rparr>))) ''a.ts'' = Some ''//''"
proof -
  let ?w = "\<lparr>files = [''a.ts'' \<mapsto> ''/ x\<newline>''], fault = (\<lambda>p. WriteFails 2)\<rparr>"
  have h1: "files ?w ''a.ts'' = Some ''/ x\<newline>''" by simp
  have t: "fst (fix_text ''/ x\<newline>'') = ''// x\<newline>''" by code_simp
  have h2: "fst (fix_text ''/ x\<newline>'') \<noteq> ''/ x\<newline>''" by (simp add: t)
  have h3: "\<not> dry_run (CommentFixer False False)" by (simp add: CommentFixer_def)
  show ?thesis
    using fix_file_writes_in_place [OF h1 h2 h3] h1 h2 h3 by (simp add: t)
qed

text \<open>
  C3 as stated fails: a write that fails right after the file was opened leaves the file
  empty, not with its content of before the run.
\<close>

theorem failed_write_loses_original:
  "files (snd (snd (fix_file (CommentFixer False False) ''a.ts''
      \<lparr>files = [''a.ts'' \<mapsto> ''/ x\<newline>''], fault = (\<lambda>p. WriteFails 0)\<rparr>))) ''a.ts''
     \<noteq> Some ''/ x\<newline>''"
  by code_simp

text \<open>
  C4 (amended).  On the text \<^verbatim>\<open>/ === SECTION ===\<close> and a newline, the normalization
  returns \<^verbatim>\<open>// === SECTION ===\<close> and a newline, and the tally records the one
  substitution under \<^verbatim>\<open>standalone_slashes\<close> (and in \<^verbatim>\<open>total\<close>);
  \<^verbatim>\<open>section_headers\<close> stays 0.
\<close>

theorem scenario_section_header:
  "fix_text ''/ === SECTION ===\<newline>'' =
     (''// === SECTION ===\<newline>'',
      [(''section_headers'', 0), (''section_titles'', 0), (''object_comments'', 0),
       (''naked_headers'', 0), (''section_dividers'', 0), (''multiline_sections'', 0),
       (''mixed_slash_headers'', 0), (''standalone_slashes'', 1), (''total'', 1)])"
  by code_simp

text \<open>C4 as stated fails: the count under \<^verbatim>\<open>section_headers\<close> is not 1.\<close>

theorem scenario_section_header_not_counted_there:
  "\<not> (fst (fix_text ''/ === SECTION ===\<newline>'') = ''// === SECTION ===\<newline>'' \<and>
      item_of (snd (fix_text ''/ === SECTION ===\<newline>'')) ''section_headers'' = 1)"
  by code_simp

text \<open>
  C5 (amended).  On the three lines \<^verbatim>\<open>/ === \<close> (with a trailing space),
  \<^verbatim>\<open>TITLE\<close> and \<^verbatim>\<open>// ===\<close>, the normalization returns the three lines
  \<^verbatim>\<open>// ===\<close> (the trailing space is removed), \<^verbatim>\<open>// TITLE\<close> and
  \<^verbatim>\<open>// ===\<close>, and the tally records the divider fix under
  \<^verbatim>\<open>standalone_slashes\<close> and the title insertion under \<^verbatim>\<open>multiline_sections\<close>.
\<close>

theorem scenario_title_insertion:
  "fix_text ''/ === \<newline>TITLE\<newline>// ===\<newline>'' =
     (''// ===\<newline>// TITLE\<newline>// ===\<newline>'',
      [(''section_headers'', 0), (''section_titles'', 0), (''object_comments'', 0),
       (''naked_headers'', 0), (''section_dividers'', 0), (''multiline_sections'', 1),
       (''mixed_slash_headers'', 0), (''standalone_slashes'', 1), (''total'', 2)])"
  by code_simp

text \<open>C5 as stated fails: the text returned is not the one with the trailing space.\<close>

theorem scenario_title_insertion_drops_space:
  "fst (fix_text ''/ === \<newline>TITLE\<newline>// ===\<newline>'') \<noteq> ''// === \<newline>// TITLE\<newline>// ===\<newline>''"
  by code_simp

text \<open>
  C6 (amended).  For every input text the normalization is one fixed sequence: patterns 1,
  1a, 2, 3, 4 and 5 once each, in this order, each on the output of the one before, and
  then pattern 6 exactly three times whatever it finds (the only loop, with no early exit;
  the catalogue as a whole is never run again).  It returns for every text, and the total
  of the tally is the sum of the match counts of these nine rule applications.
\<close>

theorem fix_text_fixed_sequence:
  "pattern6_loop 3 st =
     apply_rule pattern6 template6 ''section_headers''
       (apply_rule pattern6 template6 ''section_headers''
         (apply_rule pattern6 template6 ''section_headers'' st)) \<and>
   fix_text T =
     (let T1 = sub pattern1 template1 T;
          T2 = sub pattern1a template1 T1;
          T3 = sub pattern2 template2 T2;
          T4 = sub pattern3 template3 T3;
          T5 = sub pattern4 template4 T4;
          T6 = sub pattern5 template5 T5;
          T7 = sub pattern6 template6 T6;
          T8 = sub pattern6 template6 T7;
          T9 = sub pattern6 template6 T8
      in (T9,
          [(''section_headers'', count pattern6 T6 + count pattern6 T7 + count pattern6 T8),
           (''section_titles'', 0),
           (''object_comments'', count pattern3 T3),
           (''naked_headers'', count pattern4 T4),
           (''section_dividers'', count pattern5 T5),
           (''multiline_sections'', count pattern2 T2),
           (''mixed_slash_headers'', 0),
           (''standalone_slashes'', count pattern1 T + count pattern1a T1),
           (''total'',
            count pattern1 T + count pattern1a T1 + count pattern2 T2 + count pattern3 T3 +
            count pattern4 T4 + count pattern5 T5 +
            count pattern6 T6 + count pattern6 T7 + count pattern6 T8)]))"
  by (simp only: fix_text_unfolded numeral_3_eq_3 pattern6_loop.simps simp_thms)

text \<open>
  C6 as stated fails: on two bare dividers around a short title the first pass makes two
  substitutions, and the driver of the specification would run a second pass, which repairs
  the title; the script stops after its one pass.
\<close>

theorem fix_text_is_not_the_driver:
  "fix_text ''===\<newline>AB\<newline>===\<newline>'' \<noteq> Normalize_spec 3 ''===\<newline>AB\<newline>===\<newline>''"
  by code_simp

text \<open>
  C7.  In dry-run mode nothing is ever written: after \<^verbatim>\<open>fix_file\<close>, and after the
  single-file branch of \<^verbatim>\<open>main\<close> with or without \<^verbatim>\<open>--force\<close>, the world is the
  one of before, for every file and every content; and what the calls return does not
  depend on how writes would go, so no error of a write can come out of them.
\<close>

theorem dry_run_never_writes:
  "snd (snd (fix_file (self\<lparr>dry_run := True\<rparr>) file_path w)) = w \<and>
   snd (main_fix_file True args_verbose args_force file_path w) = w \<and>
   fst (fix_file (self\<lparr>dry_run := True\<rparr>) file_path (w\<lparr>fault := f\<rparr>)) =
     fst (fix_file (self\<lparr>dry_run := True\<rparr>) file_path w) \<and>
   fst (main_fix_file True args_verbose args_force file_path (w\<lparr>fault := f\<rparr>)) =
     fst (main_fix_file True args_verbose args_force file_path w)"
  by (auto simp add: fix_file_def main_fix_file_def read_text_def CommentFixer_def Let_def
      split: sum.splits prod.splits option.splits)

theorem dry_run_never_writes_witness:
  "snd (main_fix_file True False True ''a.ts''
         \<lparr>files = [''a.ts'' \<mapsto> ''/ x\<newline>''], fault = (\<lambda>p. WriteFails 0)\<rparr>) =
     \<lparr>files = [''a.ts'' \<mapsto> ''/ x\<newline>''], fault = (\<lambda>p. WriteFails 0)\<rparr>"
  using dry_run_never_writes [of "CommentFixer True False" "''a.ts''"
      "\<lparr>files = [''a.ts'' \<mapsto> ''/ x\<newline>''], fault = (\<lambda>p. WriteFails 0)\<rparr>" False True "\<lambda>p. NoFault"]
  by blast

text \<open>
  C8 fails on the code: pattern 2 is not locally idempotent.  Where two banners share a
  divider, one application inserts the slashes before the first title only, since its match
  has consumed the shared divider; a second application in direct succession then finds one
  more match and changes the text again.
\<close>

theorem pattern2_not_locally_idempotent:
  "sub pattern2 template2 ''// ===\<newline>AB\<newline>// ===\<newline>CD\<newline>// ===\<newline>'' =
     ''// ===\<newline>// AB\<newline>// ===\<newline>CD\<newline>// ===\<newline>'' \<and>
   count pattern2 ''// ===\<newline>// AB\<newline>// ===\<newline>CD\<newline>// ===\<newline>'' = 1 \<and>
   sub pattern2 template2 ''// ===\<newline>// AB\<newline>// ===\<newline>CD\<newline>// ===\<newline>'' =
     ''// ===\<newline>// AB\<newline>// ===\<newline>// CD\<newline>// ===\<newline>''"
  by code_simp

text \<open>
  C9.  In force mode every line of the text (as \<^verbatim>\<open>split('\n')\<close> gives them) that
  starts with a slash not followed by a second slash gets exactly one more slash in front,
  every line that starts with \<^verbatim>\<open>//\<close> stays as it is, and so does every other line;
  the lines of the text that force mode joins are exactly these lines.
\<close>

theorem force_mode_lines:
  assumes "i < length (split_nl content)"
  shows "(let lines = split_nl content; line = lines ! i; new_lines = fst (force_fix lines) in
     length new_lines = length lines \<and> split_nl (join_nl new_lines) = new_lines \<and>
     new_lines ! i =
       (if startswith ''//'' line then line
        else if startswith ''/'' line then CHR ''/'' # line else line))"
proof -
  let ?g = "\<lambda>l. if single_slash l then CHR ''/'' # l else l"
  have nl: "CHR ''/'' \<noteq> NL" by (simp add: NL_def)
  have "\<And>l. l \<in> set (map ?g (split_nl content)) \<Longrightarrow> NL \<notin> set l"
    using split_nl_no_NL [of _ content] nl by auto
  moreover have "map ?g (split_nl content) \<noteq> []" using split_nl_nonempty by simp
  ultimately have "split_nl (join_nl (map ?g (split_nl content))) = map ?g (split_nl content)"
    by (rule split_join [rotated])
  then show ?thesis using assms
    by (auto simp add: force_fix_map Let_def single_slash_def startswith_def)
qed

theorem force_mode_lines_witness:
  "(1::nat) < length (split_nl ''//a\<newline>/b\<newline>c'') \<and>
   fst (force_fix (split_nl ''//a\<newline>/b\<newline>c'')) ! 1 = ''//b''"
proof -
  have s: "split_nl ''//a\<newline>/b\<newline>c'' = [''//a'', ''/b'', ''c'']" by code_simp
  have h: "(1::nat) < length (split_nl ''//a\<newline>/b\<newline>c'')" unfolding s by simp
  have "fst (force_fix (split_nl ''//a\<newline>/b\<newline>c'')) ! 1 =
          (if startswith ''//'' (split_nl ''//a\<newline>/b\<newline>c'' ! 1)
           then split_nl ''//a\<newline>/b\<newline>c'' ! 1
           else if startswith ''/'' (split_nl ''//a\<newline>/b\<newline>c'' ! 1)
           then CHR ''/'' # split_nl ''//a\<newline>/b\<newline>c'' ! 1
           else split_nl ''//a\<newline>/b\<newline>c'' ! 1)"
    using force_mode_lines [OF h] by (simp only: Let_def)
  then have "fst (force_fix (split_nl ''//a\<newline>/b\<newline>c'')) ! 1 = ''//b''"
    unfolding s by (simp add: startswith_def)
  then show ?thesis using h by blast
qed

text \<open>
  C10.  Every tally that \<^verbatim>\<open>fix_file\<close> returns for a file it could read has exactly the
  nine category keys, each with a non-negative count, and its \<^verbatim>\<open>total\<close> is the sum of
  the other eight.
\<close>

theorem fix_file_tally_well_formed:
  assumes "files w file_path = Some original_content"
  shows "\<exists>was_fixed tally self' w'.
           fix_file self file_path w = (Inr (file_path, was_fixed, tally), self', w') \<and>
           tally_ok tally"
proof -
  obtain content fc where ft: "fix_text original_content = (content, fc)"
    by (cases "fix_text original_content")
  have ok: "tally_ok fc" "tally_ok (zeroed fc)"
    using tally_ok_fix_text [of original_content] tally_ok_zeroed [of original_content] ft
    by simp_all
  show ?thesis
    using assms ft ok
    by (auto simp add: fix_file_def read_text_def split: prod.splits option.splits)
qed

theorem fix_file_tally_well_formed_witness:
  "files \<lparr>files = [''a.ts'' \<mapsto> ''/ x\<newline>''], fault = (\<lambda>p. NoFault)\<rparr> ''a.ts'' = Some ''/ x\<newline>'' \<and>
   (\<exists>was_fixed tally self' w'.
      fix_file (CommentFixer False False) ''a.ts''
        \<lparr>files = [''a.ts'' \<mapsto> ''/ x\<newline>''], fault = (\<lambda>p. NoFault)\<rparr>
        = (Inr (''a.ts'', was_fixed, tally), self', w') \<and> tally_ok tally)"
  using fix_file_tally_well_formed
    [of "\<lparr>files = [''a.ts'' \<mapsto> ''/ x\<newline>''], fault = (\<lambda>p. NoFault)\<rparr>" "''a.ts''" "''/ x\<newline>''"
        "CommentFixer False False"]
  by simp

end
